theory Spec2Isabelle
  imports Main "HOL-Library.Sublist"
begin

section \<open>Python strings\<close>

text \<open>
  A Python \<open>str\<close> is a sequence of Unicode code points, and \<open>len\<close> counts code
  points. The prompts of \<open>agent.py\<close> hold Cyrillic text, so a string is modelled as the
  list of its code points, not as a list of bytes.
\<close>

type_synonym pystr = "nat list"

abbreviation py :: "string \<Rightarrow> pystr" where
  "py s \<equiv> map of_char s"

text \<open>
  The characters \<open>str.isspace\<close> accepts; \<open>str.split()\<close>, \<open>str.strip()\<close> and the
  regular expression class \<open>\s\<close> (on \<open>str\<close> patterns) use the same set.
\<close>

definition is_space :: "nat \<Rightarrow> bool" where
  "is_space c \<longleftrightarrow>
     (9 \<le> c \<and> c \<le> 13) \<or> (28 \<le> c \<and> c \<le> 32) \<or> c = 133 \<or> c = 160 \<or> c = 5760 \<or>
     (8192 \<le> c \<and> c \<le> 8202) \<or> c = 8232 \<or> c = 8233 \<or> c = 8239 \<or> c = 8287 \<or> c = 12288"

text \<open>
  \<open>text.split()\<close> with no separator: the maximal runs of non-space characters, in
  order. \<open>cur\<close> is the word being read.
\<close>

fun split_from :: "pystr \<Rightarrow> pystr \<Rightarrow> pystr list" where
  "split_from cur [] = (if cur = [] then [] else [cur])"
| "split_from cur (c # cs) =
     (if is_space c then (if cur = [] then split_from [] cs else cur # split_from [] cs)
      else split_from (cur @ [c]) cs)"

definition split_py :: "pystr \<Rightarrow> pystr list" where
  "split_py s = split_from [] s"

section \<open>estimate_tokens (agent.py, lines 11-27)\<close>

definition estimate_tokens :: "pystr \<Rightarrow> nat" where
  "estimate_tokens s =
     (let words = length (split_py s);
          chars = length s;
          estimated_tokens = chars div 4;
          min_tokens = words
      in max estimated_tokens min_tokens)"

text \<open>
  The estimate as the specification words it, with the byte length of the string. The
  program reads and writes all its files as UTF-8, so the byte length is the UTF-8 one.
\<close>

definition utf8_width :: "nat \<Rightarrow> nat" where
  "utf8_width c = (if c < 128 then 1 else if c < 2048 then 2 else if c < 65536 then 3 else 4)"

definition byte_length :: "pystr \<Rightarrow> nat" where
  "byte_length s = sum_list (map utf8_width s)"

definition spec_estimate :: "pystr \<Rightarrow> nat" where
  "spec_estimate s = max (length (split_py s)) (byte_length s div 4)"


section \<open>JSON values\<close>

text \<open>
  The values \<open>json.loads\<close> returns and \<open>json.dumps\<close> prints: \<open>None\<close>, booleans,
  integers, floats, strings, lists and dictionaries with string keys. A dictionary is an
  association list in insertion order. IEEE arithmetic is not modelled: a float is given
  by what this program can observe of it, namely whether it is non-zero (its truth
  value), the integer it equals if there is one, and the text \<open>json.dumps\<close> prints.
\<close>

datatype pyfloat = PyFloat (float_nonzero: bool) (float_int: "int option") (float_repr: pystr)

datatype json =
    JNull
  | JBool bool
  | JInt int
  | JFloat pyfloat
  | JStr pystr
  | JArr "json list"
  | JObj "(pystr \<times> json) list"

text \<open>\<open>d.get(k)\<close> is \<open>map_of d k\<close>; \<open>d.get(k, default)\<close>:\<close>

definition get_or :: "(pystr \<times> json) list \<Rightarrow> pystr \<Rightarrow> json \<Rightarrow> json" where
  "get_or d k dflt = (case map_of d k of None \<Rightarrow> dflt | Some v \<Rightarrow> v)"

text \<open>Python's truth value of a JSON value (\<open>if v\<close>, \<open>not v\<close>, \<open>a and b\<close>).\<close>

fun truthy :: "json \<Rightarrow> bool" where
  "truthy JNull = False"
| "truthy (JBool b) = b"
| "truthy (JInt i) = (i \<noteq> 0)"
| "truthy (JFloat f) = float_nonzero f"
| "truthy (JStr s) = (s \<noteq> [])"
| "truthy (JArr xs) = (xs \<noteq> [])"
| "truthy (JObj kvs) = (kvs \<noteq> [])"

text \<open>
  \<open>v == n\<close> for an integer \<open>n\<close>: Python compares numbers by value, and \<open>True\<close> and
  \<open>False\<close> are the integers 1 and 0.
\<close>

fun eq_int :: "json \<Rightarrow> int \<Rightarrow> bool" where
  "eq_int (JInt i) n = (i = n)"
| "eq_int (JBool b) n = ((if b then 1 else 0) = n)"
| "eq_int (JFloat f) n = (float_int f = Some n)"
| "eq_int _ n = False"

section \<open>json.dumps\<close>

function digits :: "nat \<Rightarrow> pystr" where
  "digits n = (if n < 10 then [48 + n] else digits (n div 10) @ [48 + n mod 10])"
  by pat_completeness auto
termination
  by (relation "measure id") auto

definition str_int :: "int \<Rightarrow> pystr" where
  "str_int i = (if i < 0 then 45 # digits (nat (- i)) else digits (nat i))"

definition hex_digit :: "nat \<Rightarrow> nat" where
  "hex_digit n = (if n < 10 then 48 + n else 87 + n)"

text \<open>
  The string encoder with \<open>ensure_ascii=False\<close>: the quote, the backslash and the
  control characters below U+0020 are escaped, everything else is printed as it is.
\<close>

definition escape_char :: "nat \<Rightarrow> pystr" where
  "escape_char c =
     (if c = 34 then [92, 34]
      else if c = 92 then [92, 92]
      else if c = 10 then [92, 110]
      else if c = 13 then [92, 114]
      else if c = 9 then [92, 116]
      else if c = 8 then [92, 98]
      else if c = 12 then [92, 102]
      else if c < 32 then [92, 117, 48, 48, hex_digit (c div 16), hex_digit (c mod 16)]
      else [c])"

definition encode_str :: "pystr \<Rightarrow> pystr" where
  "encode_str s = [34] @ concat (map escape_char s) @ [34]"

fun join :: "pystr \<Rightarrow> pystr list \<Rightarrow> pystr" where
  "join sep [] = []"
| "join sep [x] = x"
| "join sep (x # y # ys) = x @ sep @ join sep (y # ys)"

definition newline_indent :: "nat \<Rightarrow> pystr" where
  "newline_indent lvl = 10 # replicate (2 * lvl) 32"

text \<open>
  \<open>json.dumps(v, indent=2, ensure_ascii=False)\<close> for a value that stands at nesting
  depth \<open>lvl\<close>: the members of a non-empty list or dictionary go one per line, indented
  by two spaces per level, separated by a comma; a key and its value by a colon and a
  space.
\<close>

fun dumps_at :: "nat \<Rightarrow> json \<Rightarrow> pystr"
  and dumps_elems :: "nat \<Rightarrow> json list \<Rightarrow> pystr list"
  and dumps_pairs :: "nat \<Rightarrow> (pystr \<times> json) list \<Rightarrow> pystr list" where
  "dumps_at lvl JNull = py ''null''"
| "dumps_at lvl (JBool b) = (if b then py ''true'' else py ''false'')"
| "dumps_at lvl (JInt i) = str_int i"
| "dumps_at lvl (JFloat f) = float_repr f"
| "dumps_at lvl (JStr s) = encode_str s"
| "dumps_at lvl (JArr xs) =
     (if xs = [] then [91, 93]
      else [91] @ newline_indent (Suc lvl)
           @ join (44 # newline_indent (Suc lvl)) (dumps_elems (Suc lvl) xs)
           @ newline_indent lvl @ [93])"
| "dumps_at lvl (JObj kvs) =
     (if kvs = [] then [123, 125]
      else [123] @ newline_indent (Suc lvl)
           @ join (44 # newline_indent (Suc lvl)) (dumps_pairs (Suc lvl) kvs)
           @ newline_indent lvl @ [125])"
| "dumps_elems lvl [] = []"
| "dumps_elems lvl (x # xs) = dumps_at lvl x # dumps_elems lvl xs"
| "dumps_pairs lvl [] = []"
| "dumps_pairs lvl (kv # kvs) =
     (encode_str (fst kv) @ [58, 32] @ dumps_at lvl (snd kv)) # dumps_pairs lvl kvs"

definition dumps_indent2 :: "json \<Rightarrow> pystr" where
  "dumps_indent2 v = dumps_at 0 v"

section \<open>str.replace\<close>

text \<open>
  \<open>s.replace(old, new)\<close>: every occurrence of \<open>old\<close>, found from the left and not
  overlapping, is replaced. With an empty \<open>old\<close> Python puts \<open>new\<close> before every
  character and at the end.
\<close>

fun replace_py :: "pystr \<Rightarrow> pystr \<Rightarrow> pystr \<Rightarrow> pystr" where
  "replace_py old new [] = (if old = [] then new else [])"
| "replace_py old new (c # cs) =
     (if old = [] then new @ c # replace_py old new cs
      else if prefix old (c # cs) then new @ replace_py old new (drop (length old - 1) cs)
      else c # replace_py old new cs)"

section \<open>Errors\<close>

text \<open>The exceptions the modelled code raises.\<close>

datatype error =
    ValueError
  | AttributeError
  | TypeError
  | HandshakeTimedOut

section \<open>The context budgeter (agent.py, lines 174-289)\<close>

text \<open>The literals of the source, as code points.\<close>

definition system_prompt :: pystr where
  "system_prompt =
   [89, 111, 117, 32, 97, 114, 101, 32, 97, 32, 86, 75, 32, 109, 101, 115, 115, 97, 103, 105,
    110, 103, 32, 97, 115, 115, 105, 115, 116, 97, 110, 116, 46, 32, 89, 111, 117, 32, 99, 97,
    110, 32, 115, 101, 97, 114, 99, 104, 32, 117, 115, 101, 114, 115, 44, 32, 103, 101, 116, 32,
    100, 105, 97, 108, 111, 103, 115, 44, 32, 103, 101, 116, 32, 109, 101, 115, 115, 97, 103,
    101, 32, 104, 105, 115, 116, 111, 114, 121, 44, 32, 97, 110, 100, 32, 99, 104, 97, 116, 32,
    119, 105, 116, 104, 32, 112, 101, 111, 112, 108, 101, 46, 32, 65, 108, 119, 97, 121, 115,
    32, 114, 101, 115, 112, 111, 110, 100, 32, 119, 105, 116, 104, 32, 118, 97, 108, 105, 100,
    32, 74, 83, 79, 78, 46]"

text \<open>\<open>_load_tools_hints\<close>, lines 280-289.\<close>

definition load_tools_hints :: pystr where
  "load_tools_hints =
   [65, 118, 97, 105, 108, 97, 98, 108, 101, 32, 116, 111, 111, 108, 115, 58, 10, 49, 46, 32,
    34, 109, 101, 115, 115, 97, 103, 101, 115, 34, 32, 116, 111, 111, 108, 32, 119, 105, 116,
    104, 32, 109, 101, 116, 104, 111, 100, 32, 34, 103, 101, 116, 95, 117, 110, 114, 101, 97,
    100, 95, 109, 101, 115, 115, 97, 103, 101, 115, 34, 32, 45, 32, 1087, 1086, 1083, 1091,
    1095, 1080, 1090, 1100, 32, 1085, 1077, 1087, 1088, 1086, 1095, 1080, 1090, 1072, 1085,
    1085, 1099, 1077, 32, 1089, 1086, 1086, 1073, 1097, 1077, 1085, 1080, 1103, 10, 50, 46, 32,
    34, 109, 101, 115, 115, 97, 103, 101, 115, 34, 32, 116, 111, 111, 108, 32, 119, 105, 116,
    104, 32, 109, 101, 116, 104, 111, 100, 32, 34, 103, 101, 116, 95, 99, 111, 110, 118, 101,
    114, 115, 97, 116, 105, 111, 110, 115, 34, 32, 45, 32, 1087, 1086, 1083, 1091, 1095, 1080,
    1090, 1100, 32, 1089, 1087, 1080, 1089, 1086, 1082, 32, 1076, 1080, 1072, 1083, 1086, 1075,
    1086, 1074, 10, 51, 46, 32, 34, 109, 101, 115, 115, 97, 103, 101, 115, 34, 32, 116, 111,
    111, 108, 32, 119, 105, 116, 104, 32, 109, 101, 116, 104, 111, 100, 32, 34, 103, 101, 116,
    95, 104, 105, 115, 116, 111, 114, 121, 34, 32, 45, 32, 1087, 1086, 1083, 1091, 1095, 1080,
    1090, 1100, 32, 1080, 1089, 1090, 1086, 1088, 1080, 1102, 32, 1089, 1086, 1086, 1073, 1097,
    1077, 1085, 1080, 1081, 32, 40, 112, 101, 101, 114, 95, 105, 100, 44, 32, 99, 111, 117, 110,
    116, 61, 49, 48, 41, 10, 52, 46, 32, 34, 109, 101, 115, 115, 97, 103, 101, 115, 34, 32, 116,
    111, 111, 108, 32, 119, 105, 116, 104, 32, 109, 101, 116, 104, 111, 100, 32, 34, 115, 101,
    110, 100, 95, 109, 101, 115, 115, 97, 103, 101, 34, 32, 45, 32, 1086, 1090, 1087, 1088,
    1072, 1074, 1080, 1090, 1100, 32, 1089, 1086, 1086, 1073, 1097, 1077, 1085, 1080, 1077, 32,
    40, 112, 101, 101, 114, 95, 105, 100, 44, 32, 109, 101, 115, 115, 97, 103, 101, 41, 10, 53,
    46, 32, 34, 109, 101, 115, 115, 97, 103, 101, 115, 34, 32, 116, 111, 111, 108, 32, 119, 105,
    116, 104, 32, 109, 101, 116, 104, 111, 100, 32, 34, 97, 119, 97, 105, 116, 95, 97, 110, 121,
    95, 101, 118, 101, 110, 116, 34, 32, 45, 32, 1078, 1076, 1072, 1090, 1100, 32, 1085, 1086,
    1074, 1099, 1077, 32, 1089, 1086, 1086, 1073, 1097, 1077, 1085, 1080, 1103, 32, 40, 100,
    117, 114, 97, 116, 105, 111, 110, 95, 115, 61, 54, 48, 41, 10, 10, 1040, 1083, 1075, 1086,
    1088, 1080, 1090, 1084, 32, 1086, 1073, 1097, 1077, 1085, 1080, 1103, 58, 32, 1087, 1086,
    1083, 1091, 1095, 1080, 1090, 1100, 32, 1085, 1077, 1087, 1088, 1086, 1095, 1080, 1090,
    1072, 1085, 1085, 1099, 1077, 32, 8594, 32, 1087, 1086, 1083, 1091, 1095, 1080, 1090, 1100,
    32, 1076, 1080, 1072, 1083, 1086, 1075, 1080, 32, 8594, 32, 1085, 1072, 1087, 1080, 1089,
    1072, 1090, 1100, 32, 1074, 1089, 1077, 1084, 46]"

text \<open>
  The f-string of lines 185-206 is the text before the task, the task, the text up to
  the tool hints, the tool hints and the rest, in which the doubled braces of the source
  stand for single ones; the rest starts with the line of the history placeholder.
\<close>

definition template_head :: pystr where
  "template_head =
   [86, 75, 32, 109, 101, 115, 115, 97, 103, 105, 110, 103, 32, 97, 115, 115, 105, 115, 116, 97,
    110, 116, 46, 32, 84, 97, 115, 107, 58, 32, 34]"

definition template_mid :: pystr where
  "template_mid =
   [34, 10, 10, 84, 111, 111, 108, 115, 58, 32]"

definition template_tail :: pystr where
  "template_tail =
   [10, 10, 72, 105, 115, 116, 111, 114, 121, 58, 32, 123, 72, 73, 83, 84, 79, 82, 89, 95, 80,
    76, 65, 67, 69, 72, 79, 76, 68, 69, 82, 125, 10, 10, 1055, 1056, 1054, 1057, 1058, 1054,
    1049, 32, 1040, 1051, 1043, 1054, 1056, 1048, 1058, 1052, 32, 1055, 1045, 1056, 1045, 1055,
    1048, 1057, 1050, 1048, 58, 10, 49, 46, 32, 1055, 1086, 1083, 1091, 1095, 1080, 1090, 1100,
    32, 1085, 1077, 1087, 1088, 1086, 1095, 1080, 1090, 1072, 1085, 1085, 1099, 1077, 32, 1089,
    1086, 1086, 1073, 1097, 1077, 1085, 1080, 1103, 58, 32, 109, 101, 115, 115, 97, 103, 101,
    115, 46, 103, 101, 116, 95, 117, 110, 114, 101, 97, 100, 95, 109, 101, 115, 115, 97, 103,
    101, 115, 10, 50, 46, 32, 1054, 1090, 1074, 1077, 1090, 1080, 1090, 1100, 32, 1085, 1072,
    32, 1082, 1072, 1078, 1076, 1086, 1077, 32, 1089, 1086, 1086, 1073, 1097, 1077, 1085, 1080,
    1077, 58, 32, 109, 101, 115, 115, 97, 103, 101, 115, 46, 115, 101, 110, 100, 95, 109, 101,
    115, 115, 97, 103, 101, 32, 40, 112, 101, 101, 114, 95, 105, 100, 44, 32, 34, 1055, 1088,
    1080, 1074, 1077, 1090, 33, 32, 1050, 1072, 1082, 32, 1076, 1077, 1083, 1072, 63, 34, 41,
    10, 51, 46, 32, 1046, 1076, 1072, 1090, 1100, 32, 1085, 1086, 1074, 1099, 1077, 32, 1089,
    1086, 1086, 1073, 1097, 1077, 1085, 1080, 1103, 58, 32, 109, 101, 115, 115, 97, 103, 101,
    115, 46, 97, 119, 97, 105, 116, 95, 97, 110, 121, 95, 101, 118, 101, 110, 116, 32, 40, 100,
    117, 114, 97, 116, 105, 111, 110, 95, 115, 61, 54, 48, 41, 10, 10, 1042, 1040, 1046, 1053,
    1054, 58, 32, 10, 45, 32, 1054, 1090, 1074, 1077, 1095, 1072, 1081, 32, 1085, 1072, 32,
    1082, 1072, 1078, 1076, 1086, 1077, 32, 1085, 1077, 1087, 1088, 1086, 1095, 1080, 1090,
    1072, 1085, 1085, 1086, 1077, 32, 1089, 1086, 1086, 1073, 1097, 1077, 1085, 1080, 1077, 10,
    45, 32, 1055, 1080, 1096, 1080, 32, 1090, 1086, 1083, 1100, 1082, 1086, 32, 1085, 1072, 32,
    1088, 1091, 1089, 1089, 1082, 1086, 1084, 32, 1103, 1079, 1099, 1082, 1077, 10, 45, 32,
    1041, 1091, 1076, 1100, 32, 1076, 1088, 1091, 1078, 1077, 1083, 1102, 1073, 1085, 1099,
    1084, 32, 1080, 32, 1086, 1073, 1097, 1080, 1090, 1077, 1083, 1100, 1085, 1099, 1084, 10,
    10, 1055, 1056, 1048, 1052, 1045, 1056, 1067, 58, 10, 1055, 1086, 1083, 1091, 1095, 1080,
    1090, 1100, 32, 1089, 1086, 1086, 1073, 1097, 1077, 1085, 1080, 1103, 58, 32, 96, 123, 34,
    116, 111, 111, 108, 34, 58, 32, 34, 109, 101, 115, 115, 97, 103, 101, 115, 34, 44, 32, 34,
    97, 114, 103, 117, 109, 101, 110, 116, 115, 34, 58, 32, 123, 34, 109, 101, 116, 104, 111,
    100, 34, 58, 32, 34, 103, 101, 116, 95, 117, 110, 114, 101, 97, 100, 95, 109, 101, 115, 115,
    97, 103, 101, 115, 34, 44, 32, 34, 112, 97, 114, 97, 109, 115, 34, 58, 32, 123, 125, 125,
    125, 96, 10, 1054, 1090, 1074, 1077, 1090, 1080, 1090, 1100, 58, 32, 96, 123, 34, 116, 111,
    111, 108, 34, 58, 32, 34, 109, 101, 115, 115, 97, 103, 101, 115, 34, 44, 32, 34, 97, 114,
    103, 117, 109, 101, 110, 116, 115, 34, 58, 32, 123, 34, 109, 101, 116, 104, 111, 100, 34,
    58, 32, 34, 115, 101, 110, 100, 95, 109, 101, 115, 115, 97, 103, 101, 34, 44, 32, 34, 112,
    97, 114, 97, 109, 115, 34, 58, 32, 123, 34, 112, 101, 101, 114, 95, 105, 100, 34, 58, 32,
    34, 56, 50, 49, 53, 51, 57, 54, 51, 55, 34, 44, 32, 34, 109, 101, 115, 115, 97, 103, 101,
    34, 58, 32, 34, 1055, 1088, 1080, 1074, 1077, 1090, 33, 32, 1050, 1072, 1082, 32, 1076,
    1077, 1083, 1072, 63, 34, 125, 125, 125, 96, 10, 1046, 1076, 1072, 1090, 1100, 58, 32, 96,
    123, 34, 116, 111, 111, 108, 34, 58, 32, 34, 109, 101, 115, 115, 97, 103, 101, 115, 34, 44,
    32, 34, 97, 114, 103, 117, 109, 101, 110, 116, 115, 34, 58, 32, 123, 34, 109, 101, 116, 104,
    111, 100, 34, 58, 32, 34, 97, 119, 97, 105, 116, 95, 97, 110, 121, 95, 101, 118, 101, 110,
    116, 34, 44, 32, 34, 112, 97, 114, 97, 109, 115, 34, 58, 32, 123, 34, 100, 117, 114, 97,
    116, 105, 111, 110, 95, 115, 34, 58, 32, 54, 48, 125, 125, 125, 96, 10, 10, 74, 83, 79, 78,
    32, 114, 101, 115, 112, 111, 110, 115, 101, 58]"

definition placeholder :: pystr where
  "placeholder = py ''{HISTORY_PLACEHOLDER}''"

definition base_prompt_template :: "pystr \<Rightarrow> pystr \<Rightarrow> pystr" where
  "base_prompt_template tools_hints task =
     template_head @ task @ template_mid @ tools_hints @ template_tail"

text \<open>
  The prompt with a candidate history put in: \<open>str.replace\<close> fills every occurrence of
  the placeholder, also one that the task text itself contains.
\<close>

definition fill_history :: "pystr \<Rightarrow> json list \<Rightarrow> pystr" where
  "fill_history template h = replace_py placeholder (dumps_indent2 (JArr h)) template"

definition fits :: "nat \<Rightarrow> pystr \<Rightarrow> json list \<Rightarrow> bool" where
  "fits max_context_tokens template h \<longleftrightarrow>
     estimate_tokens (fill_history template h) \<le> max_context_tokens"

text \<open>
  The loop of lines 212-227 over \<open>reversed(history)\<close>: \<open>items\<close> are the items not yet
  looked at, newest first, and \<open>limited_history\<close> the accepted ones in their original
  order. An item is put in front when the prompt with it stays within the limit; the
  first item that does not fit ends the loop. (\<open>item_tokens\<close> and \<open>current_tokens\<close>
  are computed by the source and never read.)
\<close>

fun accept_items :: "nat \<Rightarrow> pystr \<Rightarrow> json list \<Rightarrow> json list \<Rightarrow> json list" where
  "accept_items max_context_tokens template [] limited_history = limited_history"
| "accept_items max_context_tokens template (item # items) limited_history =
     (let test_history = item # limited_history;
          test_prompt = fill_history template test_history;
          test_tokens = estimate_tokens test_prompt
      in if test_tokens \<le> max_context_tokens
         then accept_items max_context_tokens template items (item # limited_history)
         else limited_history)"

text \<open>
  \<open>_create_reasoning_prompt\<close> with the token limit and the tool hints as parameters.
  When the final prompt is over the limit the source builds \<open>minimal_prompt\<close> from a
  second f-string (lines 247-270). Its line 268 holds the text
  \<open>{"action": {...}}\<close> with single braces: a replacement field that formats the string
  \<open>"action"\<close> with the format specification \<open>" Ellipsis"\<close>, which \<open>str.__format__\<close>
  rejects with a \<open>ValueError\<close>. So that branch raises and returns nothing.
\<close>

definition reasoning_prompt ::
  "nat \<Rightarrow> pystr \<Rightarrow> pystr \<Rightarrow> json list \<Rightarrow> error + (pystr \<times> bool \<times> nat)" where
  "reasoning_prompt max_context_tokens tools_hints task history =
     (let base_template = base_prompt_template tools_hints task;
          limited_history = accept_items max_context_tokens base_template (rev history) [];
          prompt = fill_history base_template limited_history;
          prompt_tokens = estimate_tokens prompt
      in if prompt_tokens > max_context_tokens then Inl ValueError
         else
           (let needs_reset = (length limited_history < length history \<and> length history > 0);
                items_to_keep = (if needs_reset then length limited_history else length history)
            in Inr (prompt, needs_reset, items_to_keep)))"

definition create_reasoning_prompt :: "pystr \<Rightarrow> json list \<Rightarrow> error + (pystr \<times> bool \<times> nat)" where
  "create_reasoning_prompt task history =
     (let system_tokens = estimate_tokens system_prompt;
          max_context_tokens = 5000 - system_tokens;
          tools_hints = load_tools_hints
      in reasoning_prompt max_context_tokens tools_hints task history)"


section \<open>json.loads\<close>

text \<open>
  Two things of the Python library are parameters of the model: the conversion of a
  number literal with a fraction or an exponent (and of \<open>NaN\<close>, \<open>Infinity\<close>,
  \<open>-Infinity\<close>) to a float, and the message text of the \<open>JSONDecodeError\<close> that
  \<open>json.loads\<close> raises on a text. Everything else of \<open>json.loads\<close> is computed: the
  decoder in its default strict mode, as a scanner that cuts the text into tokens and a
  stack machine that builds the value. (The interpreter's recursion limit on deeply
  nested texts is not modelled.)
\<close>

record pylib =
  float_of_literal :: "pystr \<Rightarrow> pyfloat"
  decode_error_text :: "pystr \<Rightarrow> pystr"

datatype token = TLBrace | TRBrace | TLBrack | TRBrack | TComma | TColon | TStr pystr | TAtom pystr

datatype lexstate = LIdle | LStr pystr | LAtom pystr

definition is_json_ws :: "nat \<Rightarrow> bool" where
  "is_json_ws c \<longleftrightarrow> c = 32 \<or> c = 9 \<or> c = 10 \<or> c = 13"

definition is_digit :: "nat \<Rightarrow> bool" where
  "is_digit c \<longleftrightarrow> 48 \<le> c \<and> c \<le> 57"

text \<open>
  The characters of numbers and of the literal names. A maximal run of them is one atom:
  two values that touch are an error of the grammar anyway.
\<close>

definition is_atom_char :: "nat \<Rightarrow> bool" where
  "is_atom_char c \<longleftrightarrow>
     is_digit c \<or> (65 \<le> c \<and> c \<le> 90) \<or> (97 \<le> c \<and> c \<le> 122) \<or> c = 45 \<or> c = 43 \<or> c = 46"

definition hex_val :: "nat \<Rightarrow> nat option" where
  "hex_val c =
     (if 48 \<le> c \<and> c \<le> 57 then Some (c - 48)
      else if 97 \<le> c \<and> c \<le> 102 then Some (c - 87)
      else if 65 \<le> c \<and> c \<le> 70 then Some (c - 55)
      else None)"

definition hex4 :: "nat \<Rightarrow> nat \<Rightarrow> nat \<Rightarrow> nat \<Rightarrow> nat option" where
  "hex4 a b c d =
     (case hex_val a of None \<Rightarrow> None | Some w \<Rightarrow>
      case hex_val b of None \<Rightarrow> None | Some x \<Rightarrow>
      case hex_val c of None \<Rightarrow> None | Some y \<Rightarrow>
      case hex_val d of None \<Rightarrow> None | Some z \<Rightarrow> Some (((w * 16 + x) * 16 + y) * 16 + z))"

definition simple_escape :: "nat \<Rightarrow> nat option" where
  "simple_escape e =
     (if e = 34 then Some 34
      else if e = 92 then Some 92
      else if e = 47 then Some 47
      else if e = 98 then Some 8
      else if e = 102 then Some 12
      else if e = 110 then Some 10
      else if e = 114 then Some 13
      else if e = 116 then Some 9
      else None)"

definition is_high_surrogate :: "nat \<Rightarrow> bool" where
  "is_high_surrogate u \<longleftrightarrow> 55296 \<le> u \<and> u \<le> 56319"

definition is_low_surrogate :: "nat \<Rightarrow> bool" where
  "is_low_surrogate u \<longleftrightarrow> 56320 \<le> u \<and> u \<le> 57343"

definition join_surrogates :: "nat \<Rightarrow> nat \<Rightarrow> nat" where
  "join_surrogates u v = 65536 + (u - 55296) * 1024 + (v - 56320)"

text \<open>
  A character read between two tokens: white space is skipped, a quote opens a string, a
  punctuation mark is a token, a character of an atom starts one, and nothing else is
  allowed.
\<close>

definition idle_next :: "nat \<Rightarrow> token list \<Rightarrow> (lexstate \<times> token list) option" where
  "idle_next c toks =
     (if is_json_ws c then Some (LIdle, toks)
      else if c = 34 then Some (LStr [], toks)
      else if c = 123 then Some (LIdle, toks @ [TLBrace])
      else if c = 125 then Some (LIdle, toks @ [TRBrace])
      else if c = 91 then Some (LIdle, toks @ [TLBrack])
      else if c = 93 then Some (LIdle, toks @ [TRBrack])
      else if c = 44 then Some (LIdle, toks @ [TComma])
      else if c = 58 then Some (LIdle, toks @ [TColon])
      else if is_atom_char c then Some (LAtom [c], toks)
      else None)"

text \<open>
  The scanner. Inside a string a control character below U+0020 is an error, a backslash
  starts an escape, and a \<open>\uXXXX\<close> escape of a high surrogate directly followed by the
  escape of a low surrogate is one code point.
\<close>

fun lex :: "lexstate \<Rightarrow> token list \<Rightarrow> pystr \<Rightarrow> token list option" where
  "lex LIdle toks [] = Some toks"
| "lex (LAtom a) toks [] = Some (toks @ [TAtom a])"
| "lex (LStr a) toks [] = None"
| "lex LIdle toks (c # cs) =
     (case idle_next c toks of
        None \<Rightarrow> None
      | Some (st, toks') \<Rightarrow> lex st toks' cs)"
| "lex (LAtom a) toks (c # cs) =
     (if is_atom_char c then lex (LAtom (a @ [c])) toks cs
      else
        (case idle_next c (toks @ [TAtom a]) of
           None \<Rightarrow> None
         | Some (st, toks') \<Rightarrow> lex st toks' cs))"
| "lex (LStr a) toks (c # cs) =
     (if c = 34 then lex LIdle (toks @ [TStr a]) cs
      else if c = 92 then
        (case cs of
           [] \<Rightarrow> None
         | e # r \<Rightarrow>
             if e = 117 then
               (case r of
                  h1 # h2 # h3 # h4 # r' \<Rightarrow>
                    (case hex4 h1 h2 h3 h4 of
                       None \<Rightarrow> None
                     | Some u \<Rightarrow>
                         (case r' of
                            b # v # g1 # g2 # g3 # g4 # r'' \<Rightarrow>
                              if is_high_surrogate u \<and> b = 92 \<and> v = 117 then
                                (case hex4 g1 g2 g3 g4 of
                                   None \<Rightarrow> None
                                 | Some w \<Rightarrow>
                                     if is_low_surrogate w
                                     then lex (LStr (a @ [join_surrogates u w])) toks r''
                                     else lex (LStr (a @ [u])) toks r')
                              else lex (LStr (a @ [u])) toks r'
                          | _ \<Rightarrow> lex (LStr (a @ [u])) toks r'))
                | _ \<Rightarrow> None)
             else
               (case simple_escape e of
                  None \<Rightarrow> None
                | Some x \<Rightarrow> lex (LStr (a @ [x])) toks r))
      else if c < 32 then None
      else lex (LStr (a @ [c])) toks cs)"

text \<open>
  Numbers: an optional minus sign, an integer part without a leading zero, an optional
  fraction and an optional exponent. Without fraction and exponent the value is an
  \<open>int\<close> of any size, otherwise a float.
\<close>

definition int_part_ok :: "pystr \<Rightarrow> bool" where
  "int_part_ok d \<longleftrightarrow> d \<noteq> [] \<and> (d = [48] \<or> hd d \<noteq> 48)"

definition nat_of_digits :: "pystr \<Rightarrow> nat" where
  "nat_of_digits d = foldl (\<lambda>n c. 10 * n + (c - 48)) 0 d"

definition exp_ok :: "pystr \<Rightarrow> bool" where
  "exp_ok r =
     (case r of
        [] \<Rightarrow> False
      | e # r1 \<Rightarrow>
          (e = 101 \<or> e = 69) \<and>
          (let r2 = (case r1 of [] \<Rightarrow> [] | s # r' \<Rightarrow> if s = 43 \<or> s = 45 then r' else r1)
           in r2 \<noteq> [] \<and> list_all is_digit r2))"

definition frac_exp_ok :: "pystr \<Rightarrow> bool" where
  "frac_exp_ok r =
     (case r of
        [] \<Rightarrow> False
      | c # r1 \<Rightarrow>
          if c = 46 then
            (let f = takeWhile is_digit r1; r2 = dropWhile is_digit r1
             in f \<noteq> [] \<and> (r2 = [] \<or> exp_ok r2))
          else exp_ok r)"

definition number_of_atom :: "pylib \<Rightarrow> pystr \<Rightarrow> json option" where
  "number_of_atom lib a =
     (let negative = (a \<noteq> [] \<and> hd a = 45);
          b = (if negative then tl a else a);
          d = takeWhile is_digit b;
          r = dropWhile is_digit b
      in if \<not> int_part_ok d then None
         else if r = [] then
           Some (JInt (if negative then - int (nat_of_digits d) else int (nat_of_digits d)))
         else if frac_exp_ok r then Some (JFloat (float_of_literal lib a))
         else None)"

definition atom_json :: "pylib \<Rightarrow> pystr \<Rightarrow> json option" where
  "atom_json lib a =
     (if a = py ''null'' then Some JNull
      else if a = py ''true'' then Some (JBool True)
      else if a = py ''false'' then Some (JBool False)
      else if a = py ''NaN'' \<or> a = py ''Infinity'' \<or> a = py ''-Infinity''
        then Some (JFloat (float_of_literal lib a))
      else number_of_atom lib a)"

text \<open>
  \<open>d[k] = v\<close> on a dictionary: a key that is present keeps its place and gets the new
  value, a new key goes to the end.
\<close>

fun dict_set :: "(pystr \<times> json) list \<Rightarrow> pystr \<Rightarrow> json \<Rightarrow> (pystr \<times> json) list" where
  "dict_set [] k v = [(k, v)]"
| "dict_set (p # ps) k v = (if fst p = k then (k, v) # ps else p # dict_set ps k v)"

text \<open>
  The stack machine. A frame is a list with its elements so far, a dictionary that
  waits for a key or a comma, or a dictionary that waits for the value of a key. The
  mode says what the next token may be.
\<close>

datatype frame =
    FArr "json list"
  | FObj "(pystr \<times> json) list"
  | FKey "(pystr \<times> json) list" pystr

datatype pmode = MValue | MValueOrClose | MKeyOrClose | MKey | MColon | MAfter | MDone json

fun complete :: "json \<Rightarrow> frame list \<Rightarrow> (pmode \<times> frame list) option" where
  "complete v [] = Some (MDone v, [])"
| "complete v (FArr acc # st) = Some (MAfter, FArr (acc @ [v]) # st)"
| "complete v (FKey m k # st) = Some (MAfter, FObj (dict_set m k v) # st)"
| "complete v (FObj m # st) = None"

fun begin_value :: "pylib \<Rightarrow> bool \<Rightarrow> frame list \<Rightarrow> token \<Rightarrow> (pmode \<times> frame list) option" where
  "begin_value lib may_close st (TStr s) = complete (JStr s) st"
| "begin_value lib may_close st (TAtom a) =
     (case atom_json lib a of None \<Rightarrow> None | Some v \<Rightarrow> complete v st)"
| "begin_value lib may_close st TLBrack = Some (MValueOrClose, FArr [] # st)"
| "begin_value lib may_close st TLBrace = Some (MKeyOrClose, FObj [] # st)"
| "begin_value lib may_close st TRBrack =
     (case st of
        FArr acc # st' \<Rightarrow> if may_close then complete (JArr acc) st' else None
      | _ \<Rightarrow> None)"
| "begin_value lib may_close st _ = None"

fun begin_key :: "frame list \<Rightarrow> token \<Rightarrow> (pmode \<times> frame list) option" where
  "begin_key (FObj m # st) (TStr k) = Some (MColon, FKey m k # st)"
| "begin_key st t = None"

fun close_or_comma :: "frame list \<Rightarrow> token \<Rightarrow> (pmode \<times> frame list) option" where
  "close_or_comma (FArr acc # st) TComma = Some (MValue, FArr acc # st)"
| "close_or_comma (FArr acc # st) TRBrack = complete (JArr acc) st"
| "close_or_comma (FObj m # st) TComma = Some (MKey, FObj m # st)"
| "close_or_comma (FObj m # st) TRBrace = complete (JObj m) st"
| "close_or_comma st t = None"

fun parse_step :: "pylib \<Rightarrow> pmode \<Rightarrow> frame list \<Rightarrow> token \<Rightarrow> (pmode \<times> frame list) option" where
  "parse_step lib MValue st t = begin_value lib False st t"
| "parse_step lib MValueOrClose st t = begin_value lib True st t"
| "parse_step lib MKeyOrClose st t =
     (case (st, t) of
        (FObj m # st', TRBrace) \<Rightarrow> complete (JObj m) st'
      | _ \<Rightarrow> begin_key st t)"
| "parse_step lib MKey st t = begin_key st t"
| "parse_step lib MColon st t = (if t = TColon then Some (MValue, st) else None)"
| "parse_step lib MAfter st t = close_or_comma st t"
| "parse_step lib (MDone v) st t = None"

fun parse_tokens :: "pylib \<Rightarrow> pmode \<Rightarrow> frame list \<Rightarrow> token list \<Rightarrow> json option" where
  "parse_tokens lib m st [] = (case m of MDone v \<Rightarrow> Some v | _ \<Rightarrow> None)"
| "parse_tokens lib m st (t # ts) =
     (case parse_step lib m st t of
        None \<Rightarrow> None
      | Some (m', st') \<Rightarrow> parse_tokens lib m' st' ts)"

text \<open>\<open>json.loads(s)\<close>: \<open>None\<close> stands for raising \<open>JSONDecodeError\<close>.\<close>

definition json_loads :: "pylib \<Rightarrow> pystr \<Rightarrow> json option" where
  "json_loads lib s =
     (case lex LIdle [] s of
        None \<Rightarrow> None
      | Some toks \<Rightarrow> parse_tokens lib MValue [] toks)"

section \<open>The two regular expressions of the action parser (agent.py, lines 362-364)\<close>

text \<open>
  \<open>re.search\<close> tries the start positions from the left and returns group 1 of the
  first match. Both patterns are compiled with \<open>re.DOTALL\<close>, so the dot matches every
  character; \<open>.*?\<close> is lazy, so the group ends at the first closing brace after which
  the rest of the pattern matches. The class \<open>\s\<close> is \<open>is_space\<close>; neither a brace
  nor a backtick is a space, so \<open>\s*\<close> always takes the whole run of spaces.
\<close>

definition fence :: pystr where
  "fence = [96, 96, 96]"

definition fence_json :: pystr where
  "fence_json = [96, 96, 96, 106, 115, 111, 110]"

definition closes_fence :: "pystr \<Rightarrow> bool" where
  "closes_fence s \<longleftrightarrow> prefix fence (dropWhile is_space s)"

text \<open>The group of the fenced pattern, once the opening brace is read: \<open>acc\<close> is the
  text of the group so far.\<close>

fun lazy_to_fence :: "pystr \<Rightarrow> pystr \<Rightarrow> pystr option" where
  "lazy_to_fence acc [] = None"
| "lazy_to_fence acc (c # cs) =
     (if c = 125 \<and> closes_fence cs then Some (acc @ [c])
      else lazy_to_fence (acc @ [c]) cs)"

definition match_fenced_at :: "pystr \<Rightarrow> pystr option" where
  "match_fenced_at s =
     (if prefix fence_json s then
        (case dropWhile is_space (drop (length fence_json) s) of
           [] \<Rightarrow> None
         | c # cs \<Rightarrow> if c = 123 then lazy_to_fence [123] cs else None)
      else None)"

fun search_fenced :: "pystr \<Rightarrow> pystr option" where
  "search_fenced [] = None"
| "search_fenced (c # cs) =
     (case match_fenced_at (c # cs) of
        Some g \<Rightarrow> Some g
      | None \<Rightarrow> search_fenced cs)"

fun lazy_to_brace :: "pystr \<Rightarrow> pystr \<Rightarrow> pystr option" where
  "lazy_to_brace acc [] = None"
| "lazy_to_brace acc (c # cs) =
     (if c = 125 then Some (acc @ [c]) else lazy_to_brace (acc @ [c]) cs)"

fun search_braced :: "pystr \<Rightarrow> pystr option" where
  "search_braced [] = None"
| "search_braced (c # cs) =
     (if c = 123 then
        (case lazy_to_brace [123] cs of
           Some g \<Rightarrow> Some g
         | None \<Rightarrow> search_braced cs)
      else search_braced cs)"

text \<open>Lines 362-364: the fenced pattern first, the bare one when it finds nothing.\<close>

definition find_json_text :: "pystr \<Rightarrow> pystr option" where
  "find_json_text response_text =
     (case search_fenced response_text of
        Some g \<Rightarrow> Some g
      | None \<Rightarrow> search_braced response_text)"

section \<open>The transport (agent.py, lines 88-172)\<close>

text \<open>
  Of the \<open>Agent\<close> object the model keeps the request counter and the payloads handed
  to \<open>_send_mcp_raw\<close>, in order. (\<open>_send_mcp_raw\<close> writes a payload as one JSON line
  to the child's standard input, and writes nothing once that stream is closed.)
\<close>

record agent =
  request_id :: int
  outbox :: "json list"

text \<open>\<open>Agent.__init__\<close>, line 43.\<close>

definition new_agent :: agent where
  "new_agent = \<lparr>request_id = 1, outbox = []\<rparr>"

definition send_mcp_raw :: "json \<Rightarrow> agent \<Rightarrow> agent" where
  "send_mcp_raw payload a = a\<lparr>outbox := outbox a @ [payload]\<rparr>"

text \<open>
  The reader thread puts the lines of the child's standard output on a queue, and the
  main thread polls it with \<open>stdout_queue.get(timeout=0.1)\<close> until the wall clock
  passes the deadline. The model is given the outcomes of the polls that a wait makes
  before its deadline: either \<open>queue.Empty\<close> or a line. When they are used up the time
  is over.
\<close>

datatype qevent = QEmpty | QLine pystr

text \<open>
  \<open>_wait_for_response\<close>, lines 148-163. The \<open>except\<close> clause names \<open>queue.Empty\<close>
  and \<open>json.JSONDecodeError\<close> only: on a line that is valid JSON but not an object,
  \<open>response.get\<close> raises \<open>AttributeError\<close>, which leaves the function.
\<close>

fun wait_for_response :: "pylib \<Rightarrow> int \<Rightarrow> qevent list \<Rightarrow> error + json" where
  "wait_for_response lib rid [] = Inr (JObj [])"
| "wait_for_response lib rid (QEmpty # polls) = wait_for_response lib rid polls"
| "wait_for_response lib rid (QLine line # polls) =
     (case json_loads lib line of
        None \<Rightarrow> wait_for_response lib rid polls
      | Some response \<Rightarrow>
          (case response of
             JObj d \<Rightarrow>
               if eq_int (get_or d (py ''id'') JNull) rid then
                 (if map_of d (py ''error'') \<noteq> None then Inr (JObj [])
                  else Inr (get_or d (py ''result'') (JObj [])))
               else wait_for_response lib rid polls
           | _ \<Rightarrow> Inl AttributeError))"

text \<open>\<open>call_mcp_tool\<close>, lines 165-172.\<close>

definition tool_call_payload :: "int \<Rightarrow> json \<Rightarrow> json \<Rightarrow> json" where
  "tool_call_payload current_id name arguments =
     JObj [(py ''jsonrpc'', JStr (py ''2.0'')),
           (py ''id'', JInt current_id),
           (py ''method'', JStr (py ''tools/call'')),
           (py ''params'', JObj [(py ''name'', name), (py ''arguments'', arguments)])]"

definition call_mcp_tool ::
  "pylib \<Rightarrow> json \<Rightarrow> json \<Rightarrow> qevent list \<Rightarrow> agent \<Rightarrow> (error + json) \<times> agent" where
  "call_mcp_tool lib name arguments polls a =
     (let current_id = request_id a;
          a1 = a\<lparr>request_id := request_id a + 1\<rparr>;
          a2 = send_mcp_raw (tool_call_payload current_id name arguments) a1
      in (wait_for_response lib current_id polls, a2))"

section \<open>The handshake (agent.py, lines 95-139)\<close>

definition initialize_payload :: "int \<Rightarrow> json" where
  "initialize_payload init_id =
     JObj [(py ''jsonrpc'', JStr (py ''2.0'')),
           (py ''id'', JInt init_id),
           (py ''method'', JStr (py ''initialize'')),
           (py ''params'',
              JObj [(py ''protocolVersion'', JStr (py ''2024-11-05'')),
                    (py ''capabilities'', JObj []),
                    (py ''clientInfo'',
                       JObj [(py ''name'', JStr (py ''agent-client'')),
                             (py ''version'', JStr (py ''1.0.0''))])])]"

definition initialized_payload :: json where
  "initialized_payload =
     JObj [(py ''jsonrpc'', JStr (py ''2.0'')),
           (py ''method'', JStr (py ''notifications/initialized''))]"

text \<open>
  The loop of lines 115-135 with its two variables. \<open>tool_names\<close> is whatever the last
  \<open>tools_ready\<close> notification carried under \<open>params.tools\<close> (the empty list when it
  carried nothing), and the loop ends when \<open>got_init_response and tool_names\<close> is
  true, that is when the initialize response was seen and \<open>tool_names\<close> is not empty.
  A message whose id matches is the initialize response even if it has a method. As in
  \<open>_wait_for_response\<close>, \<open>.get\<close> on a value that is not a dictionary raises
  \<open>AttributeError\<close>. When the polls are used up the loop's \<open>else\<close> branch shuts the
  child down and raises \<open>RuntimeError("Handshake timed out")\<close>.
\<close>

definition handshake_message :: "int \<Rightarrow> bool \<Rightarrow> json \<Rightarrow> json \<Rightarrow> error + (bool \<times> json)" where
  "handshake_message init_id got_init_response tool_names msg =
     (case msg of
        JObj d \<Rightarrow>
          if eq_int (get_or d (py ''id'') JNull) init_id then Inr (True, tool_names)
          else if get_or d (py ''method'') JNull = JStr (py ''tools_ready'') then
            (case get_or d (py ''params'') (JObj []) of
               JObj ps \<Rightarrow> Inr (got_init_response, get_or ps (py ''tools'') (JArr []))
             | _ \<Rightarrow> Inl AttributeError)
          else Inr (got_init_response, tool_names)
      | _ \<Rightarrow> Inl AttributeError)"

fun handshake_loop :: "pylib \<Rightarrow> int \<Rightarrow> bool \<Rightarrow> json \<Rightarrow> qevent list \<Rightarrow> error + json" where
  "handshake_loop lib init_id got_init_response tool_names [] = Inl HandshakeTimedOut"
| "handshake_loop lib init_id got_init_response tool_names (QEmpty # polls) =
     handshake_loop lib init_id got_init_response tool_names polls"
| "handshake_loop lib init_id got_init_response tool_names (QLine line # polls) =
     (case json_loads lib line of
        None \<Rightarrow> handshake_loop lib init_id got_init_response tool_names polls
      | Some msg \<Rightarrow>
          (case handshake_message init_id got_init_response tool_names msg of
             Inl e \<Rightarrow> Inl e
           | Inr (got, tools) \<Rightarrow>
               if got \<and> truthy tools then Inr tools
               else handshake_loop lib init_id got tools polls))"

text \<open>
  \<open>_perform_handshake\<close>: the initialize request takes the next id; when the loop ends
  in the ready state the \<open>initialized\<close> notification is sent and the tool list
  returned.
\<close>

definition perform_handshake :: "pylib \<Rightarrow> qevent list \<Rightarrow> agent \<Rightarrow> (error + json) \<times> agent" where
  "perform_handshake lib polls a =
     (let init_id = request_id a;
          a1 = a\<lparr>request_id := request_id a + 1\<rparr>;
          a2 = send_mcp_raw (initialize_payload init_id) a1
      in case handshake_loop lib init_id False (JArr []) polls of
           Inl e \<Rightarrow> (Inl e, a2)
         | Inr tool_names \<Rightarrow> (Inr tool_names, send_mcp_raw initialized_payload a2))"

text \<open>
  The requests of a process: the handshake of \<open>__init__\<close> and then the tool calls of
  the run loop, each with the polls its wait sees. (A call that raises ends the process;
  the list may be any prefix of what a process does.)
\<close>

fun call_tools :: "pylib \<Rightarrow> (json \<times> json \<times> qevent list) list \<Rightarrow> agent \<Rightarrow> agent" where
  "call_tools lib [] a = a"
| "call_tools lib (c # cs) a =
     call_tools lib cs (snd (call_mcp_tool lib (fst c) (fst (snd c)) (snd (snd c)) a))"

definition process_requests ::
  "pylib \<Rightarrow> qevent list \<Rightarrow> (json \<times> json \<times> qevent list) list \<Rightarrow> agent" where
  "process_requests lib handshake_polls calls =
     call_tools lib calls (snd (perform_handshake lib handshake_polls new_agent))"

text \<open>The correlation id of a payload, if it has one (a notification has none).\<close>

definition payload_id :: "json \<Rightarrow> json option" where
  "payload_id p = (case p of JObj d \<Rightarrow> map_of d (py ''id'') | _ \<Rightarrow> None)"

definition sent_ids :: "agent \<Rightarrow> json list" where
  "sent_ids a = List.map_filter payload_id (outbox a)"

section \<open>The run loop (agent.py, lines 319-448)\<close>

text \<open>
  What one pass of the \<open>while True\<close> loop reads from outside the program: the pause
  flag and the goal file, the answer of the text-generation backend to a prompt (what
  \<open>ask_mixtral\<close> returns, the empty string after its retries), the line that
  \<open>input\<close> reads, the polls of the tool call's wait, the outcome of writing
  \<open>history.json\<close>, and the correction file.
\<close>

datatype pause =
    NotPaused
  | PausedForever
  | Resumed "pystr option"

datatype file_write =
    Written
  | WriteFailed "pystr option"

datatype correction =
    NoCorrection
  | CorrectionFile pystr
  | CorrectionUnreadable

record cycle_env =
  pause_flag :: pause
  backend :: "pystr \<Rightarrow> pystr"
  user_input :: pystr
  tool_polls :: "qevent list"
  history_write :: file_write
  correction_file :: correction

text \<open>
  The state of the loop: the agent, the local variables \<open>task\<close>, \<open>history\<close> and
  \<open>step\<close> of \<open>run\<close>, and the content of \<open>history.json\<close> (\<open>None\<close> when there is
  no file).
\<close>

record run_state =
  agent_of :: agent
  run_task :: pystr
  run_history :: "json list"
  run_step :: nat
  history_json :: "pystr option"

text \<open>
  A pass ends at the bottom of the loop or at a \<open>continue\<close>, at the \<open>break\<close> of the
  accepted final answer, or with an exception that nothing in \<open>run\<close> catches; or it
  never ends, waiting for the pause flag to go away. Every outcome carries the state at
  that point.
\<close>

datatype outcome =
    Continue run_state
  | Finished run_state
  | Raised error run_state
  | Blocked run_state

definition strip_py :: "pystr \<Rightarrow> pystr" where
  "strip_py s = rev (dropWhile is_space (rev (dropWhile is_space s)))"

text \<open>Lines 321-338: after a pause the goal file is read again.\<close>

definition after_pause :: "pause \<Rightarrow> run_state \<Rightarrow> run_state" where
  "after_pause p s =
     (case p of
        Resumed (Some content) \<Rightarrow>
          (let new_task = strip_py content
           in if new_task \<noteq> run_task s then
                s\<lparr>run_task := new_task,
                  run_history := run_history s @
                    [JObj [(py ''action'', JStr (py ''goal_updated'')),
                           (py ''result'', JObj [(py ''new_goal'', JStr new_task)])]]\<rparr>
              else s)
      | _ \<Rightarrow> s)"

text \<open>Lines 346-351: \<open>history[-items_to_keep:]\<close> keeps the last items.\<close>

definition reset_history :: "bool \<Rightarrow> nat \<Rightarrow> run_state \<Rightarrow> run_state" where
  "reset_history needs_reset items_to_keep s =
     (if needs_reset then
        (let h = (if items_to_keep > 0
                  then drop (length (run_history s) - items_to_keep) (run_history s) else [])
         in s\<lparr>run_history := h, run_step := length h + 1\<rparr>)
      else s)"

subsection \<open>Parsing the action (lines 361-406)\<close>

datatype parsed =
    NoJson
  | ParseFailed pystr
  | FinalAnswer json
  | ToolCall json json

definition final_answer_sentinel :: pystr where
  "final_answer_sentinel = py ''Your detailed answer here.''"

definition invalid_tool_call :: pystr where
  "invalid_tool_call = py ''Invalid tool call structure in Gemma3 4B response''"

definition is_dict :: "json \<Rightarrow> bool" where
  "is_dict v = (case v of JObj d \<Rightarrow> True | _ \<Rightarrow> False)"

text \<open>Lines 374-376: a dictionary under the key \<open>action\<close> replaces the action.\<close>

definition unwrap_action :: "(pystr \<times> json) list \<Rightarrow> (pystr \<times> json) list" where
  "unwrap_action d =
     (case map_of d (py ''action'') of
        Some (JObj inner) \<Rightarrow> inner
      | _ \<Rightarrow> d)"

text \<open>
  The body of the \<open>try\<close> up to the point where the loop knows what to do. The text the
  regular expressions capture starts with a brace, so \<open>json.loads\<close> returns a
  dictionary or raises; for another value the model gives \<open>ParseFailed\<close> as well.
\<close>

definition parse_action :: "pylib \<Rightarrow> pystr \<Rightarrow> parsed" where
  "parse_action lib response_text =
     (case find_json_text response_text of
        None \<Rightarrow> NoJson
      | Some action_str \<Rightarrow>
          (case json_loads lib action_str of
             Some (JObj d) \<Rightarrow>
               (let action = unwrap_action d
                in case map_of action (py ''final_answer'') of
                     Some answer \<Rightarrow> FinalAnswer answer
                   | None \<Rightarrow>
                       (let tool_name = get_or action (py ''tool'') JNull;
                            tool_args = get_or action (py ''arguments'') (JObj [])
                        in if \<not> truthy tool_name \<or> \<not> is_dict tool_args
                           then ParseFailed invalid_tool_call
                           else ToolCall tool_name tool_args))
           | _ \<Rightarrow> ParseFailed (decode_error_text lib action_str)))"

subsection \<open>Learning capabilities (lines 414-425)\<close>

text \<open>\<open>sub in s\<close> on strings.\<close>

fun contains :: "pystr \<Rightarrow> pystr \<Rightarrow> bool" where
  "contains sub [] = (sub = [])"
| "contains sub (c # cs) = (prefix sub (c # cs) \<or> contains sub cs)"

text \<open>
  The comprehension of line 419, \<open>[item.get("text") for item in content if "text" in
  item]\<close>, item by item: the membership test is the key test on a dictionary, the
  substring test on a string, the element test on a list, and raises \<open>TypeError\<close> on a
  number, a boolean or \<open>None\<close>; \<open>item.get\<close> exists on a dictionary only.
\<close>

fun collect_capabilities :: "json list \<Rightarrow> error + json list" where
  "collect_capabilities [] = Inr []"
| "collect_capabilities (item # items) =
     (case item of
        JObj d \<Rightarrow>
          (case collect_capabilities items of
             Inl e \<Rightarrow> Inl e
           | Inr caps \<Rightarrow>
               (case map_of d (py ''text'') of
                  Some v \<Rightarrow> Inr (v # caps)
                | None \<Rightarrow> Inr caps))
      | JStr s \<Rightarrow>
          if contains (py ''text'') s then Inl AttributeError else collect_capabilities items
      | JArr xs \<Rightarrow>
          if JStr (py ''text'') \<in> set xs then Inl AttributeError else collect_capabilities items
      | _ \<Rightarrow> Inl TypeError)"

text \<open>
  Lines 415-425. \<open>Agent\<close> has no attribute \<open>knowledge\<close> and no method
  \<open>_save_knowledge\<close>: with a non-empty list of capabilities line 422 raises
  \<open>AttributeError\<close>. A result that is true but not a dictionary has no \<open>get\<close> either.
  \<open>None\<close> stands for passing the block without an exception.
\<close>

definition learn_capabilities :: "(pystr \<times> json) list \<Rightarrow> json \<Rightarrow> error option" where
  "learn_capabilities tool_args result =
     (if get_or tool_args (py ''method'') JNull = JStr (py ''__capabilities__'') \<and> truthy result
      then
        (case result of
           JObj r \<Rightarrow>
             if \<not> truthy (get_or r (py ''isError'') JNull) then
               (case map_of r (py ''content'') of
                  Some (JArr content) \<Rightarrow>
                    (case collect_capabilities content of
                       Inl e \<Rightarrow> Some e
                     | Inr capabilities \<Rightarrow>
                         if capabilities \<noteq> [] then Some AttributeError else None)
                | _ \<Rightarrow> None)
             else None
         | _ \<Rightarrow> Some AttributeError)
      else None)"

subsection \<open>Recording the result (lines 427-448)\<close>

definition tool_record :: "json \<Rightarrow> json \<Rightarrow> json \<Rightarrow> json" where
  "tool_record tool_name tool_args result =
     JObj [(py ''action'', JObj [(py ''tool'', tool_name), (py ''arguments'', tool_args)]),
           (py ''result'', result)]"

text \<open>
  Lines 429-433: the file is opened for writing and the whole history dumped into it;
  an \<open>IOError\<close> is logged and the loop goes on. After a failed write the file holds
  whatever the failure left.
\<close>

definition save_history :: "file_write \<Rightarrow> run_state \<Rightarrow> run_state" where
  "save_history w s =
     (case w of
        Written \<Rightarrow> s\<lparr>history_json := Some (dumps_indent2 (JArr (run_history s)))\<rparr>
      | WriteFailed left \<Rightarrow> s\<lparr>history_json := left\<rparr>)"

text \<open>Lines 436-446: a non-empty correction file is appended to the history.\<close>

definition apply_correction :: "correction \<Rightarrow> run_state \<Rightarrow> run_state" where
  "apply_correction c s =
     (case c of
        CorrectionFile content \<Rightarrow>
          (let correction_text = strip_py content
           in if correction_text \<noteq> [] then
                s\<lparr>run_history := run_history s @
                    [JObj [(py ''action'', JStr (py ''emergency_correction'')),
                           (py ''result'', JObj [(py ''user_feedback'', JStr correction_text)])]]\<rparr>
              else s)
      | _ \<Rightarrow> s)"

definition reasoning_error :: "pystr \<Rightarrow> json" where
  "reasoning_error response_text =
     JObj [(py ''action'', JStr (py ''reasoning_error'')),
           (py ''raw_response'', JStr response_text),
           (py ''error'', JStr (py ''No JSON object found''))]"

definition parsing_error :: "pystr \<Rightarrow> pystr \<Rightarrow> json" where
  "parsing_error response_text message =
     JObj [(py ''action'', JStr (py ''parsing_error'')),
           (py ''raw_response'', JStr response_text),
           (py ''error'', JStr message)]"

definition final_answer_record :: "json \<Rightarrow> pystr \<Rightarrow> json" where
  "final_answer_record answer detailed_feedback =
     JObj [(py ''action'', JObj [(py ''final_answer_proposed'', answer)]),
           (py ''result'',
              JObj [(py ''user_feedback'',
                     JStr (if detailed_feedback \<noteq> [] then detailed_feedback
                           else py ''User rejected the answer.''))])]"

text \<open>Steps 3 and 4 of a pass: the tool call, the capability block, the record.\<close>

definition execute_action :: "pylib \<Rightarrow> cycle_env \<Rightarrow> json \<Rightarrow> json \<Rightarrow> run_state \<Rightarrow> outcome" where
  "execute_action lib env tool_name tool_args s =
     (case call_mcp_tool lib tool_name tool_args (tool_polls env) (agent_of s) of
        (Inl e, a) \<Rightarrow> Raised e (s\<lparr>agent_of := a\<rparr>)
      | (Inr result, a) \<Rightarrow>
          (let s1 = s\<lparr>agent_of := a\<rparr>
           in case learn_capabilities (case tool_args of JObj d \<Rightarrow> d | _ \<Rightarrow> []) result of
                Some e \<Rightarrow> Raised e s1
              | None \<Rightarrow>
                  (let s2 = s1\<lparr>run_history := run_history s1 @ [tool_record tool_name tool_args result]\<rparr>;
                       s3 = save_history (history_write env) s2;
                       s4 = apply_correction (correction_file env) s3
                   in Continue (s4\<lparr>run_step := run_step s4 + 1\<rparr>))))"

text \<open>
  One pass of the loop. The exceptions of \<open>_create_reasoning_prompt\<close>, of the tool
  call and of the capability block are raised outside the \<open>try\<close> of lines 361-406 and
  leave \<open>run\<close>.
\<close>

definition run_cycle :: "pylib \<Rightarrow> cycle_env \<Rightarrow> run_state \<Rightarrow> outcome" where
  "run_cycle lib env s0 =
     (if pause_flag env = PausedForever then Blocked s0
      else
        (let s1 = after_pause (pause_flag env) s0
         in case create_reasoning_prompt (run_task s1) (run_history s1) of
              Inl e \<Rightarrow> Raised e s1
            | Inr (prompt, needs_reset, items_to_keep) \<Rightarrow>
                (let s2 = reset_history needs_reset items_to_keep s1;
                     response_text = backend env prompt
                 in case parse_action lib response_text of
                      NoJson \<Rightarrow>
                        Continue (s2\<lparr>run_history := run_history s2 @ [reasoning_error response_text]\<rparr>)
                    | ParseFailed message \<Rightarrow>
                        Continue (s2\<lparr>run_history := run_history s2 @ [parsing_error response_text message]\<rparr>)
                    | FinalAnswer answer \<Rightarrow>
                        if answer = JStr final_answer_sentinel then Finished s2
                        else Continue
                          (s2\<lparr>run_history := run_history s2 @ [final_answer_record answer (user_input env)],
                             run_step := run_step s2 + 1\<rparr>)
                    | ToolCall tool_name tool_args \<Rightarrow>
                        execute_action lib env tool_name tool_args s2)))"

section \<open>Auxiliary notions for the proofs\<close>

text \<open>
  The number of words that start in \<open>s\<close>, where \<open>b\<close> says that the character before
  \<open>s\<close> belongs to a word; and strings that begin and end with a non-space character.
\<close>


fun words_from :: "bool \<Rightarrow> pystr \<Rightarrow> nat" where
  "words_from b [] = 0"
| "words_from b (c # cs) =
     (if is_space c then words_from False cs
      else (if b then 0 else 1) + words_from True cs)"

definition bracketed :: "pystr \<Rightarrow> bool" where
  "bracketed s \<longleftrightarrow> s \<noteq> [] \<and> \<not> is_space (hd s) \<and> \<not> is_space (last s)"


section \<open>Example inputs\<close>

text \<open>
  Inputs for the concrete evaluations below: a pass of the loop that is not paused, gets
  the given answer from the backend and the given polls from the child, writes the
  history file without failure and finds no correction file; and the state of a run
  with the goal \<open>greet user\<close> right after a handshake, with no history.
\<close>

definition quiet_env :: "pystr \<Rightarrow> qevent list \<Rightarrow> cycle_env" where
  "quiet_env response polls =
     \<lparr>pause_flag = NotPaused, backend = (\<lambda>prompt. response), user_input = [],
      tool_polls = polls, history_write = Written, correction_file = NoCorrection\<rparr>"

definition fresh_state :: run_state where
  "fresh_state =
     \<lparr>agent_of = \<lparr>request_id = 2, outbox = [initialize_payload 1, initialized_payload]\<rparr>,
      run_task = py ''greet user'', run_history = [], run_step = 1, history_json = None\<rparr>"

text \<open>
  The answer of the specification's example, as the backend would write it without a
  code fence:
  \<^verbatim>\<open>{"action": {"tool": "messages", "arguments": {"method": "get_unread_messages", "params": {}}}}\<close>
\<close>

definition wrapped_action_text :: pystr where
  "wrapped_action_text =
     [123, 34, 97, 99, 116, 105, 111, 110, 34, 58, 32, 123, 34, 116, 111, 111, 108, 34, 58,
      32, 34, 109, 101, 115, 115, 97, 103, 101, 115, 34, 44, 32, 34, 97, 114, 103, 117, 109,
      101, 110, 116, 115, 34, 58, 32, 123, 34, 109, 101, 116, 104, 111, 100, 34, 58, 32, 34,
      103, 101, 116, 95, 117, 110, 114, 101, 97, 100, 95, 109, 101, 115, 115, 97, 103, 101,
      115, 34, 44, 32, 34, 112, 97, 114, 97, 109, 115, 34, 58, 32, 123, 125, 125, 125, 125]"

text \<open>The same text up to its first closing brace.\<close>

definition wrapped_action_prefix :: pystr where
  "wrapped_action_prefix =
     [123, 34, 97, 99, 116, 105, 111, 110, 34, 58, 32, 123, 34, 116, 111, 111, 108, 34, 58,
      32, 34, 109, 101, 115, 115, 97, 103, 101, 115, 34, 44, 32, 34, 97, 114, 103, 117, 109,
      101, 110, 116, 115, 34, 58, 32, 123, 34, 109, 101, 116, 104, 111, 100, 34, 58, 32, 34,
      103, 101, 116, 95, 117, 110, 114, 101, 97, 100, 95, 109, 101, 115, 115, 97, 103, 101,
      115, 34, 44, 32, 34, 112, 97, 114, 97, 109, 115, 34, 58, 32, 123, 125]"
section \<open>Properties of estimate_tokens\<close>

lemma length_le_byte_length: "length s \<le> byte_length s"
  by (induction s) (auto simp: byte_length_def utf8_width_def)

lemma ascii_byte_length: "\<forall>c\<in>set s. c < 128 \<Longrightarrow> byte_length s = length s"
  by (induction s) (auto simp: byte_length_def utf8_width_def)

text \<open>
  Claim C3, as the code has it: the estimate is the larger of the word count and a
  quarter (rounded down) of the number of code points, so it is never below the word
  count and never above the byte-length estimate of the specification, which it equals
  on ASCII text.
\<close>

theorem estimate_tokens_chars:
  "estimate_tokens s = max (length (split_py s)) (length s div 4)
   \<and> length (split_py s) \<le> estimate_tokens s
   \<and> estimate_tokens s \<le> spec_estimate s
   \<and> ((\<forall>c\<in>set s. c < 128) \<longrightarrow> estimate_tokens s = spec_estimate s)"
proof -
  have a: "estimate_tokens s = max (length (split_py s)) (length s div 4)"
    by (simp add: estimate_tokens_def Let_def max.commute)
  have "length s div 4 \<le> byte_length s div 4"
    by (rule div_le_mono) (rule length_le_byte_length)
  then have b: "estimate_tokens s \<le> spec_estimate s"
    unfolding a spec_estimate_def by auto
  have c: "(\<forall>c\<in>set s. c < 128) \<longrightarrow> estimate_tokens s = spec_estimate s"
    unfolding a spec_estimate_def by (simp add: ascii_byte_length)
  from a b c show ?thesis by simp
qed

theorem estimate_tokens_chars_witness:
  "estimate_tokens (py ''send it now'') = max (length (split_py (py ''send it now''))) (11 div 4)
   \<and> estimate_tokens (py ''send it now'') = 3
   \<and> spec_estimate (py ''send it now'') = 3"
  using estimate_tokens_chars [of "py ''send it now''"]
  by (simp add: estimate_tokens_def spec_estimate_def split_py_def is_space_def byte_length_def
      utf8_width_def)

text \<open>
  Claim C3 as stated fails on non-ASCII text: the six Cyrillic letters of the greeting
  used in the prompt examples are one word, six code points and twelve bytes. The code
  returns 1, the byte-length formula gives 3.
\<close>

theorem estimate_tokens_bytes_counterexample:
  "estimate_tokens [1055, 1088, 1080, 1074, 1077, 1090] = 1
   \<and> spec_estimate [1055, 1088, 1080, 1074, 1077, 1090] = 3
   \<and> estimate_tokens [1055, 1088, 1080, 1074, 1077, 1090]
       \<noteq> spec_estimate [1055, 1088, 1080, 1074, 1077, 1090]"
  by (simp add: estimate_tokens_def spec_estimate_def split_py_def is_space_def byte_length_def
      utf8_width_def)


section \<open>Properties of the context budgeter\<close>

lemma length_split_from:
  "length (split_from cur s) = (if cur = [] then 0 else 1) + words_from (cur \<noteq> []) s"
  by (induction s arbitrary: cur) auto

lemma length_split_py: "length (split_py s) = words_from False s"
  by (simp add: split_py_def length_split_from)

lemma words_from_append:
  "words_from b (s @ t) = words_from b s + words_from (if s = [] then b else \<not> is_space (last s)) t"
  by (induction s arbitrary: b) auto

lemma words_from_le_length: "words_from b s \<le> length s"
proof (induction s arbitrary: b)
  case Nil
  show ?case by simp
next
  case (Cons a s)
  from Cons [of True] Cons [of False] show ?case by auto
qed

lemma words_from_bracketed:
  "bracketed s \<Longrightarrow> words_from b s + (if b then 1 else 0) = words_from False s"
  by (cases s) (auto simp: bracketed_def)

lemma words_from_bracketed_append:
  assumes "bracketed n"
  shows "words_from b (n @ t) + (if b then 1 else 0) = words_from False n + words_from True t"
proof -
  have "words_from b (n @ t) = words_from b n + words_from True t"
    using assms by (simp add: words_from_append bracketed_def)
  then show ?thesis using words_from_bracketed [OF assms, of b] by simp
qed

lemma replace_py_mono:
  assumes "old \<noteq> []" "bracketed n" "bracketed n'"
    and "length n \<le> length n'" "words_from False n \<le> words_from False n'"
  shows "length (replace_py old n s) \<le> length (replace_py old n' s)
         \<and> words_from b (replace_py old n s) \<le> words_from b (replace_py old n' s)"
  using assms
proof (induction old n s arbitrary: b rule: replace_py.induct)
  case (1 old new)
  then show ?case by simp
next
  case (2 old new c cs)
  show ?case
  proof (cases "prefix old (c # cs)")
    case True
    let ?r = "replace_py old new (drop (length old - 1) cs)"
    let ?r' = "replace_py old n' (drop (length old - 1) cs)"
    have ih: "length ?r \<le> length ?r' \<and> words_from True ?r \<le> words_from True ?r'"
      using "2.IH"(2) [OF "2.prems"(1) True "2.prems"(1) "2.prems"(2-5)] by simp
    have a: "words_from b (new @ ?r) + (if b then 1 else 0) = words_from False new + words_from True ?r"
      by (rule words_from_bracketed_append) (rule "2.prems")
    have b: "words_from b (n' @ ?r') + (if b then 1 else 0) = words_from False n' + words_from True ?r'"
      by (rule words_from_bracketed_append) (rule "2.prems")
    from a b ih "2.prems"(4,5) have "words_from b (new @ ?r) \<le> words_from b (n' @ ?r')"
      by (simp split: if_splits)
    with ih "2.prems"(1,4) True show ?thesis by simp
  next
    case False
    have ih: "\<And>b. length (replace_py old new cs) \<le> length (replace_py old n' cs)
        \<and> words_from b (replace_py old new cs) \<le> words_from b (replace_py old n' cs)"
      using "2.IH"(3) [OF "2.prems"(1) False "2.prems"] by simp
    from ih [of True] ih [of False] False "2.prems"(1) show ?thesis by simp
  qed
qed


lemma bracketed_dumps_history: "bracketed (dumps_indent2 (JArr h))"
  by (simp add: bracketed_def dumps_indent2_def is_space_def)

lemma newline_indent_0: "newline_indent 0 = [10]"
  by (simp add: newline_indent_def)

lemma newline_indent_1: "newline_indent (Suc 0) = [10, 32, 32]"
  by (simp add: newline_indent_def numeral_2_eq_2)

lemma dumps_history_Cons:
  "dumps_indent2 (JArr (x # h)) =
     [91, 10, 32, 32] @ dumps_at 1 x @
       (if h = [] then [10, 93] else [44, 10, 32, 32] @ drop 4 (dumps_indent2 (JArr h)))"
  by (cases h) (simp_all add: dumps_indent2_def newline_indent_0 newline_indent_1)

lemma dumps_history_shape:
  "h \<noteq> [] \<Longrightarrow> dumps_indent2 (JArr h) = [91, 10, 32, 32] @ drop 4 (dumps_indent2 (JArr h))"
  by (cases h) (simp_all add: dumps_history_Cons)

lemma words_from_open: "words_from False ([91, 10, 32, 32] @ z) = 1 + words_from False z"
  by (simp add: is_space_def)

lemma dumps_history_mono:
  "length (dumps_indent2 (JArr h)) \<le> length (dumps_indent2 (JArr (x # h)))
   \<and> words_from False (dumps_indent2 (JArr h)) \<le> words_from False (dumps_indent2 (JArr (x # h)))"
proof (cases "h = []")
  case True
  have "words_from False ([91, 10, 32, 32] @ dumps_at 1 x @ [10, 93])
        = 1 + words_from False (dumps_at 1 x @ [10, 93])"
    by (rule words_from_open)
  then show ?thesis using True
    by (simp add: dumps_history_Cons) (simp add: dumps_indent2_def is_space_def)
next
  case False
  let ?t = "drop 4 (dumps_indent2 (JArr h))"
  have h: "dumps_indent2 (JArr h) = [91, 10, 32, 32] @ ?t"
    using False by (rule dumps_history_shape)
  have c: "dumps_indent2 (JArr (x # h)) = [91, 10, 32, 32] @ ((dumps_at 1 x @ [44, 10, 32, 32]) @ ?t)"
    using False by (simp add: dumps_history_Cons)
  have w: "words_from False ((dumps_at 1 x @ [44, 10, 32, 32]) @ ?t)
           = words_from False (dumps_at 1 x @ [44, 10, 32, 32]) + words_from False ?t"
    by (subst words_from_append) (simp add: is_space_def)
  have "words_from False (dumps_indent2 (JArr h)) = 1 + words_from False ?t"
    by (subst h) (rule words_from_open)
  moreover have "words_from False (dumps_indent2 (JArr (x # h)))
      = 1 + (words_from False (dumps_at 1 x @ [44, 10, 32, 32]) + words_from False ?t)"
    by (subst c, subst words_from_open, subst w) simp
  moreover have "length (dumps_indent2 (JArr h)) \<le> length (dumps_indent2 (JArr (x # h)))"
    by (subst c, subst h) simp
  ultimately show ?thesis by simp
qed

lemma placeholder_nonempty: "placeholder \<noteq> []"
  by (simp add: placeholder_def)

lemma estimate_tokens_words: "estimate_tokens s = max (length s div 4) (words_from False s)"
  by (simp add: estimate_tokens_def Let_def length_split_py)

lemma fill_history_mono:
  "estimate_tokens (fill_history t h) \<le> estimate_tokens (fill_history t (x # h))"
proof -
  have m: "length (fill_history t h) \<le> length (fill_history t (x # h))
      \<and> words_from False (fill_history t h) \<le> words_from False (fill_history t (x # h))"
    unfolding fill_history_def
    using placeholder_nonempty bracketed_dumps_history bracketed_dumps_history dumps_history_mono
    by (intro replace_py_mono) auto
  then have "length (fill_history t h) div 4 \<le> length (fill_history t (x # h)) div 4"
    by (simp add: div_le_mono)
  with m show ?thesis unfolding estimate_tokens_words by (simp add: max.coboundedI1 max.coboundedI2)
qed

lemma fits_Cons: "fits c t (x # h) \<Longrightarrow> fits c t h"
  using fill_history_mono [of t h x] by (simp add: fits_def)

lemma fits_append: "fits c t (a @ h) \<Longrightarrow> fits c t h"
  by (induction a) (auto dest: fits_Cons)

lemma fits_suffix: "suffix s h \<Longrightarrow> fits c t h \<Longrightarrow> fits c t s"
  by (auto simp: suffix_def dest: fits_append)

lemma accept_items_step:
  "accept_items c t (item # items) lim =
     (if fits c t (item # lim) then accept_items c t items (item # lim) else lim)"
  by (simp add: fits_def Let_def)

lemma accept_items_spec:
  "\<exists>k \<le> length items.
      accept_items c t items lim = rev (take k items) @ lim
      \<and> (fits c t lim \<longrightarrow> fits c t (rev (take k items) @ lim))
      \<and> (k < length items \<longrightarrow> \<not> fits c t (rev (take (Suc k) items) @ lim))"
proof (induction items arbitrary: lim)
  case Nil
  show ?case by simp
next
  case (Cons item items)
  show ?case
  proof (cases "fits c t (item # lim)")
    case True
    from Cons [of "item # lim"] obtain k where k: "k \<le> length items"
      "accept_items c t items (item # lim) = rev (take k items) @ item # lim"
      "fits c t (item # lim) \<longrightarrow> fits c t (rev (take k items) @ item # lim)"
      "k < length items \<longrightarrow> \<not> fits c t (rev (take (Suc k) items) @ item # lim)"
      by blast
    show ?thesis
      by (rule exI [of _ "Suc k"]) (use True k in \<open>simp add: accept_items_step del: accept_items.simps\<close>)
  next
    case False
    show ?thesis
      by (rule exI [of _ 0]) (use False in \<open>simp add: accept_items_step del: accept_items.simps\<close>)
  qed
qed


lemma accepted_suffix:
  "\<exists>k \<le> length history.
      accept_items c t (rev history) [] = drop (length history - k) history
      \<and> (fits c t [] \<longrightarrow> fits c t (drop (length history - k) history))
      \<and> (k < length history \<longrightarrow> \<not> fits c t (drop (length history - Suc k) history))"
  using accept_items_spec [of "rev history" c t "[]"] by (auto simp: rev_take)

lemma accepted_is_suffix: "suffix (accept_items c t (rev history) []) history"
  using accepted_suffix [of history c t] by (auto simp: suffix_drop)

lemma accepted_fits: "fits c t [] \<Longrightarrow> fits c t (accept_items c t (rev history) [])"
  using accepted_suffix [of history c t] by auto

lemma accepted_longest:
  assumes "suffix s history" "fits c t s"
  shows "length s \<le> length (accept_items c t (rev history) [])"
proof (rule ccontr)
  assume neg: "\<not> ?thesis"
  obtain k where k: "k \<le> length history"
    "accept_items c t (rev history) [] = drop (length history - k) history"
    "k < length history \<longrightarrow> \<not> fits c t (drop (length history - Suc k) history)"
    using accepted_suffix [of history c t] by blast
  have ls: "length s \<le> length history" using assms(1) by (rule suffix_length_le)
  from neg k(1,2) have lt: "k < length s" by simp
  with ls have "k < length history" by simp
  with k(3) have nf: "\<not> fits c t (drop (length history - Suc k) history)" by simp
  have "suffix (drop (length history - Suc k) history) s"
    using suffix_drop assms(1) by (rule suffix_length_suffix) (use lt ls in simp)
  then have "fits c t (drop (length history - Suc k) history)"
    using assms(2) by (rule fits_suffix)
  with nf show False by simp
qed

lemma accepted_next_exceeds:
  assumes "accept_items c t (rev history) [] \<noteq> history"
  shows "\<not> fits c t (history ! (length history - length (accept_items c t (rev history) []) - 1)
                       # accept_items c t (rev history) [])"
proof -
  obtain k where k: "k \<le> length history"
    "accept_items c t (rev history) [] = drop (length history - k) history"
    "k < length history \<longrightarrow> \<not> fits c t (drop (length history - Suc k) history)"
    using accepted_suffix [of history c t] by blast
  from assms k(1,2) have lt: "k < length history" by (cases "k = length history") auto
  have "history ! (length history - Suc k) # drop (Suc (length history - Suc k)) history
        = drop (length history - Suc k) history"
    by (rule Cons_nth_drop_Suc) (use lt in simp)
  moreover have "Suc (length history - Suc k) = length history - k" using lt by simp
  ultimately show ?thesis using k(2,3) lt by simp
qed

lemma accepted_all:
  assumes "fits c t history"
  shows "accept_items c t (rev history) [] = history"
proof -
  have "length history \<le> length (accept_items c t (rev history) [])"
    using suffix_order.refl assms by (rule accepted_longest)
  with accepted_is_suffix [of c t history] show ?thesis
    by (metis suffix_length_le suffix_order.antisym suffix_length_suffix suffix_order.refl)
qed

lemma reasoning_prompt_returns:
  assumes "fits c (base_prompt_template tools_hints task) []"
  shows "reasoning_prompt c tools_hints task history =
     Inr (fill_history (base_prompt_template tools_hints task)
            (accept_items c (base_prompt_template tools_hints task) (rev history) []),
          accept_items c (base_prompt_template tools_hints task) (rev history) [] \<noteq> history,
          length (accept_items c (base_prompt_template tools_hints task) (rev history) []))"
proof -
  let ?t = "base_prompt_template tools_hints task"
  let ?lim = "accept_items c ?t (rev history) []"
  have f: "estimate_tokens (fill_history ?t ?lim) \<le> c"
    using accepted_fits [OF assms, of history] by (simp add: fits_def)
  have s: "suffix ?lim history" by (rule accepted_is_suffix)
  then have le: "length ?lim \<le> length history" by (rule suffix_length_le)
  have eq: "length ?lim = length history \<Longrightarrow> ?lim = history"
    using s by (metis suffix_length_suffix suffix_order.antisym suffix_order.refl le_refl)
  have r: "(length ?lim < length history \<and> 0 < length history) = (?lim \<noteq> history)"
  proof (cases "?lim = history")
    case True
    then show ?thesis by simp
  next
    case False
    with eq have "length ?lim \<noteq> length history" by blast
    with le have "length ?lim < length history" by simp
    with False show ?thesis by auto
  qed
  show ?thesis
    unfolding reasoning_prompt_def Let_def using f r le eq by auto
qed

lemma reasoning_prompt_raises:
  assumes "\<not> fits c (base_prompt_template tools_hints task) []"
  shows "reasoning_prompt c tools_hints task history = Inl ValueError"
proof -
  let ?t = "base_prompt_template tools_hints task"
  let ?lim = "accept_items c ?t (rev history) []"
  have "suffix [] ?lim" by simp
  then have "\<not> fits c ?t ?lim" using assms fits_suffix by blast
  then show ?thesis by (simp add: reasoning_prompt_def Let_def fits_def)
qed

text \<open>
  Claim C2: the items the loop accepts are a suffix of the history, in their original
  order and without gaps; no suffix of the history that fits is longer; when the loop
  stops before the oldest item, the next older item would exceed the limit; and whenever
  the prompt without history fits, the accepted suffix fits and is what the returned
  prompt holds, with the number of kept items and the truncation flag.
\<close>

theorem budget_longest_suffix:
  "(let t = base_prompt_template tools_hints task;
        lim = accept_items c t (rev history) []
    in suffix lim history
       \<and> (\<forall>s. suffix s history \<and> fits c t s \<longrightarrow> length s \<le> length lim)
       \<and> (lim \<noteq> history \<longrightarrow> \<not> fits c t (history ! (length history - length lim - 1) # lim))
       \<and> (fits c t [] \<longrightarrow> fits c t lim
            \<and> reasoning_prompt c tools_hints task history
                = Inr (fill_history t lim, lim \<noteq> history, length lim)))"
  unfolding Let_def
  using accepted_is_suffix accepted_longest accepted_next_exceeds accepted_fits
    reasoning_prompt_returns
  by blast


subsection \<open>The prompt of the source\<close>

lemma placeholder_code:
  "placeholder = [123, 72, 73, 83, 84, 79, 82, 89, 95, 80, 76, 65, 67, 69, 72, 79, 76, 68, 69, 82, 125]"
  by (simp add: placeholder_def)

lemma replace_py_skip:
  "old \<noteq> [] \<Longrightarrow> hd old \<notin> set a \<Longrightarrow> replace_py old new (a @ s) = a @ replace_py old new s"
  by (induction a) (auto simp: prefix_def neq_Nil_conv)

lemma replace_py_hit: "old \<noteq> [] \<Longrightarrow> replace_py old new (old @ s) = new @ replace_py old new s"
  by (cases old) auto

lemma replace_placeholder_other:
  "c \<noteq> 123 \<Longrightarrow> replace_py placeholder new (c # cs) = c # replace_py placeholder new cs"
  by (simp add: placeholder_code)

lemma replace_placeholder_brace:
  "c \<noteq> 72 \<Longrightarrow> replace_py placeholder new (123 # c # cs) = 123 # replace_py placeholder new (c # cs)"
  by (simp add: placeholder_code)

lemma replace_placeholder_Nil: "replace_py placeholder new [] = []"
  by (simp add: placeholder_code)

lemma template_tail_split:
  "template_tail = take 11 template_tail @ placeholder @ drop 32 template_tail"
  by (simp add: template_tail_def placeholder_code)

lemma template_rest_unchanged:
  "replace_py placeholder new (drop 32 template_tail) = drop 32 template_tail"
  by (simp add: template_tail_def replace_placeholder_other replace_placeholder_brace
      replace_placeholder_Nil del: replace_py.simps)

lemma no_brace_head: "123 \<notin> set template_head" by (simp add: template_head_def)
lemma no_brace_mid: "123 \<notin> set template_mid" by (simp add: template_mid_def)
lemma no_brace_hints: "123 \<notin> set load_tools_hints" by (simp add: load_tools_hints_def)
lemma no_brace_pre: "123 \<notin> set (take 11 template_tail)" by (simp add: template_tail_def)

lemma fill_template:
  assumes "123 \<notin> set task"
  shows "fill_history (base_prompt_template load_tools_hints task) h =
     template_head @ task @ template_mid @ load_tools_hints @ take 11 template_tail
       @ dumps_indent2 (JArr h) @ drop 32 template_tail"
proof -
  let ?a = "template_head @ task @ template_mid @ load_tools_hints @ take 11 template_tail"
  have hd: "hd placeholder = 123" by (simp add: placeholder_code)
  have a: "hd placeholder \<notin> set ?a"
    unfolding hd using assms no_brace_head no_brace_mid no_brace_hints no_brace_pre by simp
  have "base_prompt_template load_tools_hints task = ?a @ (placeholder @ drop 32 template_tail)"
    unfolding base_prompt_template_def by (subst template_tail_split) simp
  then have "fill_history (base_prompt_template load_tools_hints task) h
      = ?a @ replace_py placeholder (dumps_indent2 (JArr h)) (placeholder @ drop 32 template_tail)"
    unfolding fill_history_def using replace_py_skip [OF placeholder_nonempty a] by simp
  also have "replace_py placeholder (dumps_indent2 (JArr h)) (placeholder @ drop 32 template_tail)
      = dumps_indent2 (JArr h) @ drop 32 template_tail"
    by (simp add: replace_py_hit [OF placeholder_nonempty] template_rest_unchanged)
  finally show ?thesis by simp
qed

lemma length_fill_template:
  assumes "123 \<notin> set task"
  shows "length (fill_history (base_prompt_template load_tools_hints task) h)
         = length task + length (dumps_indent2 (JArr h)) + 1324"
proof -
  have "length template_head = 31" "length template_mid = 10" "length load_tools_hints = 530"
    "length template_tail = 774"
    by (simp_all add: template_head_def template_mid_def load_tools_hints_def template_tail_def)
  then show ?thesis by (simp add: fill_template [OF assms])
qed

lemma system_tokens: "estimate_tokens system_prompt = 35"
  by (simp add: estimate_tokens_def system_prompt_def split_py_def is_space_def)

lemma create_reasoning_prompt_limit:
  "create_reasoning_prompt task h = reasoning_prompt 4965 load_tools_hints task h"
  by (simp add: create_reasoning_prompt_def system_tokens)

lemma estimate_tokens_le_length: "estimate_tokens s \<le> length s"
  unfolding estimate_tokens_words using words_from_le_length [of False s] by simp

lemma estimate_tokens_ge_quarter: "length s div 4 \<le> estimate_tokens s"
  unfolding estimate_tokens_words by simp

lemma fits_short:
  assumes "123 \<notin> set task" "length task + length (dumps_indent2 (JArr h)) + 1324 \<le> c"
  shows "fits c (base_prompt_template load_tools_hints task) h"
  unfolding fits_def
  using estimate_tokens_le_length [of "fill_history (base_prompt_template load_tools_hints task) h"]
    assms(2) length_fill_template [OF assms(1), of h]
  by simp

lemma not_fits_long:
  assumes "123 \<notin> set task" "4 * c + 4 \<le> length task + length (dumps_indent2 (JArr h)) + 1324"
  shows "\<not> fits c (base_prompt_template load_tools_hints task) h"
proof -
  let ?p = "fill_history (base_prompt_template load_tools_hints task) h"
  have "4 * c + 4 \<le> length ?p" using assms(2) length_fill_template [OF assms(1), of h] by simp
  then have "c < length ?p div 4" by simp
  then show ?thesis unfolding fits_def using estimate_tokens_ge_quarter [of ?p] by simp
qed

lemma create_prompt_whole_history:
  assumes "123 \<notin> set task" "length task + length (dumps_indent2 (JArr h)) + 1324 \<le> 4965"
  shows "create_reasoning_prompt task h =
     Inr (fill_history (base_prompt_template load_tools_hints task) h, False, length h)"
proof -
  let ?t = "base_prompt_template load_tools_hints task"
  have f: "fits 4965 ?t h" using assms by (rule fits_short)
  then have all: "accept_items 4965 ?t (rev h) [] = h" by (rule accepted_all)
  have "fits 4965 ?t []" using suffix_bot.extremum f by (rule fits_suffix)
  then show ?thesis
    unfolding create_reasoning_prompt_limit by (simp add: reasoning_prompt_returns all)
qed

text \<open>
  Claim C1, the failing input: with a goal of 20000 letters and no history the prompt
  without any history estimates to more than the 4965 tokens of the limit, and
  \<open>_create_reasoning_prompt\<close> raises \<open>ValueError\<close> while it formats the minimal prompt,
  where the claim has it return that prompt with a forced reset.
\<close>

theorem minimal_prompt_raises:
  "create_reasoning_prompt (replicate 20000 97) [] = Inl ValueError"
proof -
  have "\<not> fits 4965 (base_prompt_template load_tools_hints (replicate 20000 97)) []"
    by (rule not_fits_long) (simp_all add: dumps_indent2_def)
  then show ?thesis
    unfolding create_reasoning_prompt_limit by (rule reasoning_prompt_raises)
qed


lemma length_encode_replicate:
  "32 \<le> c \<Longrightarrow> c \<noteq> 34 \<Longrightarrow> c \<noteq> 92 \<Longrightarrow> length (encode_str (replicate n c)) = n + 2"
  by (simp add: encode_str_def escape_char_def length_concat sum_list_replicate)

text \<open>
  A witness for C2 at the limit of the source: the goal \<open>greet user\<close> and a history of
  an old item of 20000 letters and a small recent one. The recent item is kept, the old
  one does not fit.
\<close>

theorem budget_longest_suffix_witness:
  "accept_items 4965 (base_prompt_template load_tools_hints (py ''greet user''))
      (rev [JStr (replicate 20000 97), JObj [(py ''result'', JInt 7)]]) []
     = [JObj [(py ''result'', JInt 7)]]
   \<and> suffix [JObj [(py ''result'', JInt 7)]] [JStr (replicate 20000 97), JObj [(py ''result'', JInt 7)]]
   \<and> fits 4965 (base_prompt_template load_tools_hints (py ''greet user'')) []
   \<and> fits 4965 (base_prompt_template load_tools_hints (py ''greet user''))
         [JObj [(py ''result'', JInt 7)]]
   \<and> \<not> fits 4965 (base_prompt_template load_tools_hints (py ''greet user''))
         [JStr (replicate 20000 97), JObj [(py ''result'', JInt 7)]]
   \<and> reasoning_prompt 4965 load_tools_hints (py ''greet user'')
         [JStr (replicate 20000 97), JObj [(py ''result'', JInt 7)]]
       = Inr (fill_history (base_prompt_template load_tools_hints (py ''greet user''))
                [JObj [(py ''result'', JInt 7)]], True, 1)"
proof -
  let ?t = "base_prompt_template load_tools_hints (py ''greet user'')"
  let ?small = "JObj [(py ''result'', JInt 7)]"
  let ?big = "JStr (replicate 20000 97)"
  have task: "123 \<notin> set (py ''greet user'')" by simp
  have f0: "fits 4965 ?t []"
    by (rule fits_short [OF task]) (simp add: dumps_indent2_def)
  have f1: "fits 4965 ?t [?small]"
    by (rule fits_short [OF task])
      (simp add: dumps_indent2_def newline_indent_def encode_str_def escape_char_def str_int_def
        numeral_2_eq_2)
  have f2: "\<not> fits 4965 ?t [?big, ?small]"
    by (rule not_fits_long [OF task])
      (simp add: dumps_indent2_def newline_indent_def length_encode_replicate)
  have lim: "accept_items 4965 ?t (rev [?big, ?small]) [] = [?small]"
    using f1 f2 by (simp add: accept_items_step del: accept_items.simps)
  have sfx: "suffix [?small] [?big, ?small]"
    by (simp add: suffix_def)
  from budget_longest_suffix [where c = 4965 and tools_hints = load_tools_hints
      and task = "py ''greet user''" and history = "[?big, ?small]"]
  have "fits 4965 ?t [] \<longrightarrow>
      reasoning_prompt 4965 load_tools_hints (py ''greet user'') [?big, ?small]
        = Inr (fill_history ?t [?small], [?small] \<noteq> [?big, ?small], length [?small])"
    unfolding Let_def lim by blast
  with f0 have "reasoning_prompt 4965 load_tools_hints (py ''greet user'') [?big, ?small]
        = Inr (fill_history ?t [?small], True, 1)"
    by simp
  with lim sfx f0 f1 f2 show ?thesis by blast
qed


section \<open>Properties of the transport\<close>

subsection \<open>Correlation ids\<close>

lemma sent_ids_send:
  "sent_ids (send_mcp_raw p a) = sent_ids a @ (case payload_id p of None \<Rightarrow> [] | Some i \<Rightarrow> [i])"
  by (simp add: sent_ids_def send_mcp_raw_def List.map_filter_def split: option.splits)

lemma payload_id_tool_call: "payload_id (tool_call_payload i n args) = Some (JInt i)"
  by (simp add: payload_id_def tool_call_payload_def)

lemma payload_id_initialize: "payload_id (initialize_payload i) = Some (JInt i)"
  by (simp add: payload_id_def initialize_payload_def)

lemma payload_id_initialized: "payload_id initialized_payload = None"
  by (simp add: payload_id_def initialized_payload_def)

lemma call_mcp_tool_ids:
  "sent_ids (snd (call_mcp_tool lib n args polls a)) = sent_ids a @ [JInt (request_id a)]
   \<and> request_id (snd (call_mcp_tool lib n args polls a)) = request_id a + 1"
  by (simp add: call_mcp_tool_def Let_def send_mcp_raw_def sent_ids_def List.map_filter_def
      payload_id_tool_call)

lemma perform_handshake_ids:
  "sent_ids (snd (perform_handshake lib polls a)) = sent_ids a @ [JInt (request_id a)]
   \<and> request_id (snd (perform_handshake lib polls a)) = request_id a + 1"
  by (simp add: perform_handshake_def Let_def sent_ids_def send_mcp_raw_def List.map_filter_def
      payload_id_initialize payload_id_initialized split: sum.splits)

lemma call_tools_ids:
  "sent_ids (call_tools lib calls a)
     = sent_ids a @ map JInt [request_id a .. request_id a + int (length calls) - 1]
   \<and> request_id (call_tools lib calls a) = request_id a + int (length calls)"
proof (induction calls arbitrary: a)
  case Nil
  show ?case by simp
next
  case (Cons c calls)
  let ?a = "snd (call_mcp_tool lib (fst c) (fst (snd c)) (snd (snd c)) a)"
  have step: "sent_ids ?a = sent_ids a @ [JInt (request_id a)]" "request_id ?a = request_id a + 1"
    using call_mcp_tool_ids [of lib "fst c" "fst (snd c)" "snd (snd c)" a] by simp_all
  have "[request_id a .. request_id a + int (length (c # calls)) - 1]
        = request_id a # [request_id a + 1 .. request_id a + 1 + int (length calls) - 1]"
    by (subst upto_rec1) (simp_all add: add.commute add.left_commute)
  with Cons [of ?a] step show ?case by simp
qed

text \<open>
  Claim C9: over the life of a process, that is the handshake and then any number of
  tool calls with whatever they receive, the correlation ids of the requests sent are
  1, 2, 3, ... in this order, one new id for each request: positive, strictly increasing
  and never used twice. The counter then stands at the next unused id.
\<close>

theorem request_ids_count_up:
  "sent_ids (process_requests lib handshake_polls calls) = map JInt [1 .. int (length calls) + 1]
   \<and> distinct (sent_ids (process_requests lib handshake_polls calls))
   \<and> request_id (process_requests lib handshake_polls calls) = int (length calls) + 2"
proof -
  let ?a = "snd (perform_handshake lib handshake_polls new_agent)"
  have h: "sent_ids ?a = [JInt 1]" "request_id ?a = 2"
    using perform_handshake_ids [of lib handshake_polls new_agent]
    by (simp_all add: new_agent_def sent_ids_def)
  have "2 + int (length calls) - 1 = int (length calls) + 1" by simp
  moreover have "[1 .. int (length calls) + 1] = 1 # [2 .. int (length calls) + 1]"
    by (subst upto_rec1) simp_all
  ultimately have "[1 .. int (length calls) + 1] = 1 # [2 .. 2 + int (length calls) - 1]"
    by (simp add: add.commute)
  with call_tools_ids [of lib calls ?a] h
  have ids: "sent_ids (process_requests lib handshake_polls calls) = map JInt [1 .. int (length calls) + 1]"
    and rid: "request_id (process_requests lib handshake_polls calls) = int (length calls) + 2"
    by (simp_all add: process_requests_def)
  have "distinct (map JInt [1 .. int (length calls) + 1])"
    by (simp add: distinct_map inj_on_def)
  with ids rid show ?thesis by simp
qed

end
